theory Spec2Isabelle
  imports Main "HOL-Library.Word"
begin

section \<open>Filter program chains (lib/bpf.c)\<close>

text \<open>
  A C pointer is an option: \<open>None\<close> is \<open>NULL\<close>. A non-null \<open>struct ubpf_vm *\<close> is
  the address of the VM. \<open>ovs_be16\<close> is a 16-bit word; it is only compared for equality.
  \<open>bpf_result\<close> is a plain value stored and never inspected by this file.
\<close>

type_synonym ovs_be16 = "16 word"
type_synonym vm_ptr = "nat option"
type_synonym bpf_result = int

record filter_prog =
  fp_instance_id :: ovs_be16
  vm :: vm_ptr
  expected_result :: bpf_result

text \<open>
  A chain is an \<open>ovs_list\<close> of \<open>filter_prog\<close> nodes. The variable that holds it has type
  \<open>struct ovs_list *\<close>: \<open>None\<close> when no chain was allocated yet, \<open>Some fps\<close> for an
  allocated list head whose nodes are \<open>fps\<close>, in list order. Lookup and add take the
  address of that variable (\<open>struct ovs_list **\<close>), a pointer that may itself be
  \<open>NULL\<close>: \<open>None\<close>, or \<open>Some c\<close> where \<open>c\<close> is the content of the variable.
\<close>

type_synonym chain = "filter_prog list option"

datatype fault = Null_dereference | Uninitialised_pointer | Invalid_free | Out_of_range

definition chain_entries :: "chain \<Rightarrow> filter_prog list" where
  "chain_entries c = (case c of None \<Rightarrow> [] | Some fps \<Rightarrow> fps)"

text \<open>
  The loop of \<open>filter_prog_chain_lookup\<close> (lines 79-87). The counter \<open>i\<close> is incremented
  for every node visited; at the first node whose id matches, the loop either returns
  the node (\<open>last_fp_pos = i\<close>) or breaks, and after a break the function returns
  \<open>NULL\<close>. The counter is a C \<open>int\<close>, modelled as an unbounded integer (exact for
  chains of fewer than \<open>2^31\<close> nodes).
\<close>

fun chain_lookup_loop :: "filter_prog list \<Rightarrow> ovs_be16 \<Rightarrow> int \<Rightarrow> int \<Rightarrow> filter_prog option" where
  "chain_lookup_loop [] fid last_fp_pos i = None"
| "chain_lookup_loop (fp # rest) fid last_fp_pos i =
     (let i' = i + 1 in
      if fid = fp_instance_id fp
      then (if last_fp_pos \<noteq> i' then None else Some fp)
      else chain_lookup_loop rest fid last_fp_pos i')"

definition filter_prog_chain_lookup :: "chain option \<Rightarrow> ovs_be16 \<Rightarrow> int \<Rightarrow> filter_prog option" where
  "filter_prog_chain_lookup filter_prog_chain fid last_fp_pos =
     (case filter_prog_chain of
        None \<Rightarrow> None
      | Some None \<Rightarrow> None
      | Some (Some fps) \<Rightarrow> chain_lookup_loop fps fid last_fp_pos 0)"

text \<open>
  The lookup as the specification words it: a running count of the entries with the
  wanted id, and the entry at which that count reaches the ordinal is returned.
\<close>

fun ordinal_lookup_spec :: "filter_prog list \<Rightarrow> ovs_be16 \<Rightarrow> int \<Rightarrow> int \<Rightarrow> filter_prog option" where
  "ordinal_lookup_spec [] fid n seen = None"
| "ordinal_lookup_spec (fp # rest) fid n seen =
     (if fid = fp_instance_id fp
      then (if seen + 1 = n then Some fp else ordinal_lookup_spec rest fid n (seen + 1))
      else ordinal_lookup_spec rest fid n seen)"

text \<open>
  \<open>filter_prog_chain_add\<close> (lines 91-115). The first statement reads
  \<open>*filter_prog_chain\<close> with no check of \<open>filter_prog_chain\<close> itself. The scan sets
  \<open>found\<close> at every node with the same id and never leaves the loop early. The result
  is the returned flag and the new content of the caller's variable. \<open>xmalloc\<close> never
  returns \<open>NULL\<close>.
\<close>

definition chain_found :: "filter_prog list \<Rightarrow> ovs_be16 \<Rightarrow> bool" where
  "chain_found fps fid = foldl (\<lambda>found fp. if fid = fp_instance_id fp then True else found) False fps"

definition filter_prog_chain_add ::
  "chain option \<Rightarrow> ovs_be16 \<Rightarrow> vm_ptr \<Rightarrow> bpf_result \<Rightarrow> fault + (bool \<times> chain)" where
  "filter_prog_chain_add filter_prog_chain fid vm_p res =
     (case filter_prog_chain of
        None \<Rightarrow> Inl Null_dereference
      | Some c \<Rightarrow>
          (let fps = chain_entries c;
               found = chain_found fps fid;
               fps' = (if found then fps
                       else fps @ [\<lparr>fp_instance_id = fid, vm = vm_p, expected_result = res\<rparr>])
           in Inr (\<not> found, Some fps')))"

text \<open>
  \<open>filter_prog_chain_free\<close> (lines 117-127) takes the chain itself. Its effect is the
  sequence of \<open>free\<close> calls it makes: one per node, popped from the front, then one for
  the list head; none at all for \<open>NULL\<close>.
\<close>

datatype freed = Freed_node filter_prog | Freed_list_head

definition filter_prog_chain_free :: "chain \<Rightarrow> freed list" where
  "filter_prog_chain_free filter_prog_chain =
     (case filter_prog_chain of
        None \<Rightarrow> []
      | Some fps \<Rightarrow> map Freed_node fps @ [Freed_list_head])"

text \<open>Chains that arise from the unallocated state by calls of add alone.\<close>

inductive built_by_add :: "chain \<Rightarrow> bool" where
  unallocated: "built_by_add None"
| added: "built_by_add c \<Longrightarrow> filter_prog_chain_add (Some c) fid vm_p res = Inr (b, c')
          \<Longrightarrow> built_by_add c'"

section \<open>Map primitives\<close>

text \<open>
  \<open>struct ubpf_map\<close> is declared outside this file; the wrappers use its operation
  table \<open>ops\<close> only. A table entry is a function pointer, \<open>None\<close> when unset. A backend
  operation receives the map and the pointer arguments; here it receives the map's
  backend data and the addresses, and yields the value the C function returns. A
  non-null data pointer is an address; C \<open>int\<close> results are integers, handed on
  unchanged.
\<close>

type_synonym addr = nat

record 'm ubpf_map_ops =
  map_lookup_op :: "('m \<Rightarrow> addr \<Rightarrow> addr option) option"
  map_update_op :: "('m \<Rightarrow> addr \<Rightarrow> addr \<Rightarrow> int) option"
  map_add_op :: "('m \<Rightarrow> addr \<Rightarrow> int) option"
  map_delete_op :: "('m \<Rightarrow> addr \<Rightarrow> int) option"

record 'm ubpf_map =
  ops :: "'m ubpf_map_ops"
  map_data :: 'm

definition ubpf_map_lookup :: "'m ubpf_map option \<Rightarrow> addr option \<Rightarrow> addr option" where
  "ubpf_map_lookup mp key =
     (case mp of
        None \<Rightarrow> None
      | Some m \<Rightarrow>
          (case map_lookup_op (ops m) of
             None \<Rightarrow> None
           | Some f \<Rightarrow>
               (case key of
                  None \<Rightarrow> None
                | Some k \<Rightarrow> f (map_data m) k)))"

definition ubpf_map_update :: "'m ubpf_map option \<Rightarrow> addr option \<Rightarrow> addr option \<Rightarrow> int" where
  "ubpf_map_update mp key item =
     (case mp of
        None \<Rightarrow> - 1
      | Some m \<Rightarrow>
          (case map_update_op (ops m) of
             None \<Rightarrow> - 2
           | Some f \<Rightarrow>
               (case key of
                  None \<Rightarrow> - 3
                | Some k \<Rightarrow>
                    (case item of
                       None \<Rightarrow> - 4
                     | Some it \<Rightarrow> f (map_data m) k it))))"

definition ubpf_map_add :: "'m ubpf_map option \<Rightarrow> addr option \<Rightarrow> int" where
  "ubpf_map_add mp item =
     (case mp of
        None \<Rightarrow> - 1
      | Some m \<Rightarrow>
          (case map_add_op (ops m) of
             None \<Rightarrow> - 2
           | Some f \<Rightarrow>
               (case item of
                  None \<Rightarrow> - 3
                | Some it \<Rightarrow> f (map_data m) it)))"

definition ubpf_map_delete :: "'m ubpf_map option \<Rightarrow> addr option \<Rightarrow> int" where
  "ubpf_map_delete mp key =
     (case mp of
        None \<Rightarrow> - 1
      | Some m \<Rightarrow>
          (case map_delete_op (ops m) of
             None \<Rightarrow> - 2
           | Some f \<Rightarrow>
               (case key of
                  None \<Rightarrow> - 3
                | Some k \<Rightarrow> f (map_data m) k)))"

section \<open>Hash primitive\<close>

text \<open>
  Memory is a function from 64-bit addresses to bytes; \<open>read_bytes mem p n\<close> are the
  \<open>n\<close> bytes from address \<open>p\<close> on.
\<close>

type_synonym memory = "64 word \<Rightarrow> 8 word"

text \<open>
  Modelled from the spec: \<open>hashlittle\<close> is not defined in this file. The specification
  calls it a fixed, well-known mixing function, so it is a parameter of \<open>ubpf_hash\<close>:
  any function of the bytes at the pointer, their number and the seed.
\<close>

type_synonym hashlittle_fn = "8 word list \<Rightarrow> 32 word \<Rightarrow> 32 word \<Rightarrow> 32 word"

definition read_bytes :: "memory \<Rightarrow> 64 word \<Rightarrow> nat \<Rightarrow> 8 word list" where
  "read_bytes mem p n = map (\<lambda>k. mem (p + of_nat k)) [0..<n]"

text \<open>
  \<open>ubpf_hash\<close> (lines 327-331): the 64-bit \<open>size\<close> is cast to \<open>uint32_t\<close> and the
  seed is the constant 0.
\<close>

definition ubpf_hash :: "hashlittle_fn \<Rightarrow> memory \<Rightarrow> 64 word \<Rightarrow> 64 word \<Rightarrow> 32 word" where
  "ubpf_hash hashlittle mem item sz =
     (let len = (ucast sz :: 32 word)
      in hashlittle (read_bytes mem item (unat len)) len 0)"

section \<open>Timestamp primitive\<close>

text \<open>
  \<open>ubpf_time_get_ns\<close> (lines 298-306) computes \<open>tv_nsec + tv_sec * 1.0e9\<close>. The literal
  \<open>1.0e9\<close> is a \<open>double\<close>, so both integers are converted to \<open>double\<close>, the product and
  the sum are rounded to \<open>double\<close>, and the sum is converted to \<open>uint64_t\<close>. Every value
  that occurs is an integer, and a \<open>double\<close> (IEEE 754 binary64, round to nearest, ties
  to even) holds an integer exactly when it has at most 53 significant bits.
  \<open>round_to_double\<close> is that rounding on the naturals, \<open>double_of_int\<close> its extension
  by sign. The conversion of a \<open>double\<close> outside the range of \<open>uint64_t\<close> is undefined
  in C.
\<close>

fun bit_length :: "nat \<Rightarrow> nat" where
  "bit_length n = (if n = 0 then 0 else Suc (bit_length (n div 2)))"

declare bit_length.simps [simp del]

definition round_to_double :: "nat \<Rightarrow> nat" where
  "round_to_double x =
     (if x < 2 ^ 53 then x
      else
        (let e = bit_length x - 53;
             q = x div 2 ^ e;
             r = x mod 2 ^ e;
             half = 2 ^ (e - 1)
         in (if r < half \<or> (r = half \<and> even q) then q else q + 1) * 2 ^ e))"

definition double_of_int :: "int \<Rightarrow> int" where
  "double_of_int x = sgn x * int (round_to_double (nat \<bar>x\<bar>))"

record timespec =
  tv_sec :: int
  tv_nsec :: int

text \<open>The argument is the clock reading that \<open>clock_gettime\<close> stored in \<open>curr_time\<close>.\<close>

definition ubpf_time_get_ns :: "timespec \<Rightarrow> fault + 64 word" where
  "ubpf_time_get_ns curr_time =
     (let product = double_of_int (double_of_int (tv_sec curr_time) * 1000000000);
          total = double_of_int (double_of_int (tv_nsec curr_time) + product)
      in if 0 \<le> total \<and> total < 2 ^ 64 then Inr (word_of_int total) else Inl Out_of_range)"

section \<open>Loading and compiling a program\<close>

text \<open>
  The heap holds the live diagnostic buffers, each with its address and its text; the
  warning log holds the messages handed to the rate-limited warning channel, in order.
  \<open>ubpf_load_elf\<close> and \<open>ubpf_compile\<close> belong to the uBPF library and are parameters
  of \<open>load_filter_prog\<close>. Each yields its C result (the status, or the compiled entry
  point with \<open>None\<close> for \<open>NULL\<close>), the diagnostic text it allocates and stores through
  its \<open>errmsg\<close> argument (\<open>None\<close> when it stores nothing) and the new state of the VM.
  The local variable \<open>errmsg\<close> starts uninitialised: \<open>None\<close>.
\<close>

type_synonym heap = "(addr \<times> string) list"

record host_state =
  heap :: heap
  warn_log :: "string list"

definition malloc_str :: "string \<Rightarrow> host_state \<Rightarrow> addr \<times> host_state" where
  "malloc_str s st =
     (let a = Suc (foldr max (map fst (heap st)) 0)
      in (a, st\<lparr>heap := (a, s) # heap st\<rparr>))"

definition store_errmsg :: "string option \<Rightarrow> addr option \<Rightarrow> host_state \<Rightarrow> addr option \<times> host_state" where
  "store_errmsg msg errmsg st =
     (case msg of
        None \<Rightarrow> (errmsg, st)
      | Some s \<Rightarrow> (case malloc_str s st of (a, st') \<Rightarrow> (Some a, st')))"

definition free_buf :: "addr \<Rightarrow> host_state \<Rightarrow> fault + host_state" where
  "free_buf a st =
     (if a \<in> fst ` set (heap st)
      then Inr (st\<lparr>heap := filter (\<lambda>b. fst b \<noteq> a) (heap st)\<rparr>)
      else Inl Invalid_free)"

definition vlog_warn_rl :: "string \<Rightarrow> host_state \<Rightarrow> host_state" where
  "vlog_warn_rl s st = st\<lparr>warn_log := warn_log st @ [s]\<rparr>"

definition buf_text :: "host_state \<Rightarrow> addr \<Rightarrow> string" where
  "buf_text st a = (case map_of (heap st) a of None \<Rightarrow> [] | Some s \<Rightarrow> s)"

text \<open>The failure branch shared by both steps: log the text at \<open>errmsg\<close>, free it.\<close>

definition warn_and_free :: "string \<Rightarrow> addr option \<Rightarrow> host_state \<Rightarrow> fault + host_state" where
  "warn_and_free prefix errmsg st =
     (case errmsg of
        None \<Rightarrow> Inl Uninitialised_pointer
      | Some a \<Rightarrow> free_buf a (vlog_warn_rl (prefix @ buf_text st a @ [CHR 0x0A]) st))"

definition load_filter_prog ::
  "('v \<Rightarrow> string \<Rightarrow> nat \<Rightarrow> int \<times> string option \<times> 'v) \<Rightarrow>
   ('v \<Rightarrow> addr option \<times> string option \<times> 'v) \<Rightarrow>
   'v \<Rightarrow> nat \<Rightarrow> string \<Rightarrow> host_state \<Rightarrow> fault + (bool \<times> 'v \<times> host_state)" where
  "load_filter_prog ubpf_load_elf ubpf_compile vm_st code_len code st =
     (case ubpf_load_elf vm_st code code_len of
        (rv, msg1, vm1) \<Rightarrow>
          (case store_errmsg msg1 None st of
             (errmsg1, st1) \<Rightarrow>
               if rv < 0 then
                 (case warn_and_free ''Failed to load code: '' errmsg1 st1 of
                    Inl e \<Rightarrow> Inl e
                  | Inr st2 \<Rightarrow> Inr (False, vm1, st2))
               else
                 (case ubpf_compile vm1 of
                    (fn, msg2, vm2) \<Rightarrow>
                      (case store_errmsg msg2 errmsg1 st1 of
                         (errmsg2, st2) \<Rightarrow>
                           if fn = None then
                             (case warn_and_free ''Failed to compile: '' errmsg2 st2 of
                                Inl e \<Rightarrow> Inl e
                              | Inr st3 \<Rightarrow> Inr (False, vm2, st3))
                           else Inr (True, vm2, st2)))))"

section \<open>Host function registry\<close>

text \<open>
  The prototypes, as initialised at lines 144-350. The enumerators of the register
  types and of the symbolic sizes are declared in the uBPF headers; they are kept as
  names, a bit-or of enumerators as the list of its operands, and the literal \<open>0xff\<close>
  as a constructor of its own.
\<close>

datatype ext_func =
  Ubpf_map_lookup | Ubpf_map_update | Ubpf_map_add | Ubpf_map_delete
  | Ubpf_printf | Ubpf_time_get_ns | Ubpf_hash

datatype ubpf_reg_type =
  MAP_PTR | PKT_PTR | MAP_VALUE_PTR | STACK_PTR | UNKNOWN | IMM | NULL_VALUE | UNINIT

datatype reg_mask = Bit_or "ubpf_reg_type list" | Mask_0xff

datatype arg_size = SIZE_MAP_KEY | SIZE_MAP_VALUE | SIZE_PTR_MAX | SIZE_64 | Size_0xff

record ubpf_func_proto =
  func :: ext_func
  arg_types :: "reg_mask list"
  arg_sizes :: "arg_size list"
  ret :: reg_mask

definition ubpf_map_lookup_proto :: ubpf_func_proto where
  "ubpf_map_lookup_proto =
     \<lparr>func = Ubpf_map_lookup,
      arg_types = [Bit_or [MAP_PTR], Bit_or [PKT_PTR, MAP_VALUE_PTR, STACK_PTR, UNKNOWN],
                   Mask_0xff, Mask_0xff, Mask_0xff],
      arg_sizes = [Size_0xff, SIZE_MAP_KEY, Size_0xff, Size_0xff, Size_0xff],
      ret = Bit_or [MAP_VALUE_PTR, NULL_VALUE]\<rparr>"

definition ubpf_map_update_proto :: ubpf_func_proto where
  "ubpf_map_update_proto =
     \<lparr>func = Ubpf_map_update,
      arg_types = [Bit_or [MAP_PTR], Bit_or [PKT_PTR, MAP_VALUE_PTR, STACK_PTR],
                   Bit_or [PKT_PTR, MAP_VALUE_PTR, STACK_PTR], Mask_0xff, Mask_0xff],
      arg_sizes = [Size_0xff, SIZE_MAP_KEY, SIZE_MAP_VALUE, Size_0xff, Size_0xff],
      ret = Bit_or [UNKNOWN]\<rparr>"

definition ubpf_map_add_proto :: ubpf_func_proto where
  "ubpf_map_add_proto =
     \<lparr>func = Ubpf_map_add,
      arg_types = [Bit_or [MAP_PTR], Bit_or [PKT_PTR, MAP_VALUE_PTR, STACK_PTR],
                   Mask_0xff, Mask_0xff, Mask_0xff],
      arg_sizes = [Size_0xff, SIZE_MAP_VALUE, Size_0xff, Size_0xff, Size_0xff],
      ret = Bit_or [UNKNOWN]\<rparr>"

definition ubpf_map_delete_proto :: ubpf_func_proto where
  "ubpf_map_delete_proto =
     \<lparr>func = Ubpf_map_delete,
      arg_types = [Bit_or [MAP_PTR], Bit_or [PKT_PTR, MAP_VALUE_PTR, STACK_PTR],
                   Mask_0xff, Mask_0xff, Mask_0xff],
      arg_sizes = [Size_0xff, SIZE_MAP_KEY, Size_0xff, Size_0xff, Size_0xff],
      ret = Bit_or [UNKNOWN]\<rparr>"

definition ubpf_printf_proto :: ubpf_func_proto where
  "ubpf_printf_proto =
     \<lparr>func = Ubpf_printf,
      arg_types = [Mask_0xff, Mask_0xff, Mask_0xff, Mask_0xff, Mask_0xff],
      arg_sizes = [Size_0xff, Size_0xff, Size_0xff, Size_0xff, Size_0xff],
      ret = Bit_or [UNINIT]\<rparr>"

definition ubpf_time_get_ns_proto :: ubpf_func_proto where
  "ubpf_time_get_ns_proto =
     \<lparr>func = Ubpf_time_get_ns,
      arg_types = [Mask_0xff, Mask_0xff, Mask_0xff, Mask_0xff, Mask_0xff],
      arg_sizes = [Size_0xff, Size_0xff, Size_0xff, Size_0xff, Size_0xff],
      ret = Bit_or [UNKNOWN]\<rparr>"

definition ubpf_hash_proto :: ubpf_func_proto where
  "ubpf_hash_proto =
     \<lparr>func = Ubpf_hash,
      arg_types = [Bit_or [PKT_PTR, MAP_VALUE_PTR, STACK_PTR], Bit_or [IMM],
                   Mask_0xff, Mask_0xff, Mask_0xff],
      arg_sizes = [SIZE_PTR_MAX, SIZE_64, Size_0xff, Size_0xff, Size_0xff],
      ret = Bit_or [UNKNOWN]\<rparr>"

text \<open>
  Modelled from the spec: \<open>ubpf_register_function\<close> belongs to the uBPF library. The
  specification describes the registry of a VM as a mapping from the call id to the
  name and the prototype; registering binds the id.
\<close>

type_synonym ext_funcs = "nat \<Rightarrow> (string \<times> ubpf_func_proto) option"

definition ubpf_register_function ::
  "ext_funcs \<Rightarrow> nat \<Rightarrow> string \<Rightarrow> ubpf_func_proto \<Rightarrow> ext_funcs" where
  "ubpf_register_function registry idx name proto = registry(idx \<mapsto> (name, proto))"

definition register_functions :: "ext_funcs \<Rightarrow> ext_funcs" where
  "register_functions vm0 =
     (let vm1 = ubpf_register_function vm0 1 ''ubpf_map_lookup'' ubpf_map_lookup_proto;
          vm2 = ubpf_register_function vm1 2 ''ubpf_map_update'' ubpf_map_update_proto;
          vm3 = ubpf_register_function vm2 3 ''ubpf_map_delete'' ubpf_map_delete_proto;
          vm4 = ubpf_register_function vm3 4 ''ubpf_map_add'' ubpf_map_add_proto;
          vm5 = ubpf_register_function vm4 5 ''ubpf_time_get_ns'' ubpf_time_get_ns_proto;
          vm6 = ubpf_register_function vm5 6 ''ubpf_hash'' ubpf_hash_proto;
          vm7 = ubpf_register_function vm6 7 ''ubpf_printf'' ubpf_printf_proto
      in vm7)"

section \<open>The filter program chain\<close>

lemma chain_found_iff_aux:
  "foldl (\<lambda>found fp. if fid = fp_instance_id fp then True else found) acc fps
   = (acc \<or> fid \<in> fp_instance_id ` set fps)"
  by (induction fps arbitrary: acc) auto

lemma chain_found_iff: "chain_found fps fid = (fid \<in> fp_instance_id ` set fps)"
  by (simp add: chain_found_def chain_found_iff_aux)

lemma chain_lookup_loop_position:
  "chain_lookup_loop fps fid n i =
     (if i < n \<and> n \<le> i + int (length fps)
         \<and> fp_instance_id (fps ! nat (n - i - 1)) = fid
         \<and> fid \<notin> fp_instance_id ` set (take (nat (n - i - 1)) fps)
      then Some (fps ! nat (n - i - 1)) else None)"
proof (induction fps arbitrary: i)
  case Nil
  show ?case by simp
next
  case (Cons fp rest)
  note IH = Cons.IH [of "i + 1"]
  consider (le) "n \<le> i" | (hit) "n = i + 1" | (far) "i + 1 < n" by linarith
  then show ?case
  proof cases
    case le
    then show ?thesis using IH by (simp add: Let_def)
  next
    case hit
    then show ?thesis using IH by (auto simp: Let_def)
  next
    case far
    then have s: "nat (n - i - 1) = Suc (nat (n - (i + 1) - 1))" by linarith
    show ?thesis using far IH unfolding s by (auto simp: Let_def)
  qed
qed

lemma filter_prog_chain_add_Some:
  "filter_prog_chain_add (Some c) fid v r =
     (if fid \<in> fp_instance_id ` set (chain_entries c) then Inr (False, Some (chain_entries c))
      else Inr (True, Some (chain_entries c @
             [\<lparr>fp_instance_id = fid, vm = v, expected_result = r\<rparr>])))"
  by (simp add: filter_prog_chain_add_def chain_found_iff Let_def)

lemma chain_entries_Some_eq:
  "x \<in> set (chain_entries c) \<Longrightarrow> Some (chain_entries c) = c"
  by (cases c) (auto simp: chain_entries_def)

lemma built_by_add_distinct:
  "built_by_add c \<Longrightarrow> distinct (map fp_instance_id (chain_entries c))"
proof (induction rule: built_by_add.induct)
  case unallocated
  show ?case by (simp add: chain_entries_def)
next
  case (added c fid vm_p res b c')
  then show ?case
    by (auto simp: filter_prog_chain_add_Some chain_entries_def split: if_splits)
qed

lemma distinct_ids_take:
  assumes "distinct (map fp_instance_id fps)" "k < length fps"
  shows "fp_instance_id (fps ! k) \<notin> fp_instance_id ` set (take k fps)"
proof
  assume "fp_instance_id (fps ! k) \<in> fp_instance_id ` set (take k fps)"
  then obtain j where j: "j < k" "fp_instance_id (fps ! j) = fp_instance_id (fps ! k)"
    using assms(2) by (auto simp: in_set_conv_nth)
  have "j < length (map fp_instance_id fps)" "k < length (map fp_instance_id fps)"
    using j(1) assms(2) by simp_all
  from nth_eq_iff_index_eq [OF assms(1) this] j assms(2) show False
    by simp
qed

text \<open>
  Claim C2, as the code has it. The lookup counts every node it visits, not only the
  nodes with the wanted id, and it stops at the first node with that id. It returns
  that node exactly when the node's 1-based position in the chain is the requested
  number; when no node has the id, or the first one with it stands elsewhere, the
  result is \<open>NULL\<close>. A \<open>NULL\<close> argument and an unallocated chain give \<open>NULL\<close>.
\<close>

theorem lookup_first_match_at_position:
  "filter_prog_chain_lookup None fid n = None \<and>
   filter_prog_chain_lookup (Some c) fid n =
     (if 1 \<le> n \<and> n \<le> int (length (chain_entries c))
         \<and> fp_instance_id (chain_entries c ! nat (n - 1)) = fid
         \<and> fid \<notin> fp_instance_id ` set (take (nat (n - 1)) (chain_entries c))
      then Some (chain_entries c ! nat (n - 1)) else None)"
proof (cases c)
  case None
  then show ?thesis by (simp add: filter_prog_chain_lookup_def chain_entries_def)
next
  case (Some fps)
  have "0 < n \<longleftrightarrow> 1 \<le> n" by linarith
  with Some show ?thesis
    using chain_lookup_loop_position [of fps fid n 0]
    by (simp add: filter_prog_chain_lookup_def chain_entries_def)
qed

text \<open>
  Claim C2 as stated fails: in a chain of two entries with ids 1 and 2, the running
  count of entries with id 2 reaches 1 at the second entry, so the ordinal reading
  returns that entry for ordinal 1, while the code returns \<open>NULL\<close> (the entry is at
  position 2).
\<close>

theorem lookup_ordinal_counterexample:
  "filter_prog_chain_lookup
     (Some (Some [\<lparr>fp_instance_id = 1, vm = Some 10, expected_result = 0\<rparr>,
                  \<lparr>fp_instance_id = 2, vm = Some 20, expected_result = 1\<rparr>])) 2 1 = None
   \<and> ordinal_lookup_spec
     [\<lparr>fp_instance_id = 1, vm = Some 10, expected_result = 0\<rparr>,
      \<lparr>fp_instance_id = 2, vm = Some 20, expected_result = 1\<rparr>] 2 1 0
     = Some \<lparr>fp_instance_id = 2, vm = Some 20, expected_result = 1\<rparr>"
  by (simp add: filter_prog_chain_lookup_def)

text \<open>
  Claim C3, as the code has it. In a chain built by add alone all ids differ, and a
  lookup with id \<open>fid\<close> and number \<open>n\<close> returns the \<open>n\<close>-th entry when that entry
  exists and carries \<open>fid\<close>, and \<open>NULL\<close> otherwise. For \<open>n > 1\<close> the result is
  therefore \<open>NULL\<close> exactly when the chain has fewer than \<open>n\<close> entries or its
  \<open>n\<close>-th entry has another id.
\<close>

theorem lookup_after_adds_is_positional:
  assumes "built_by_add c"
  shows "filter_prog_chain_lookup (Some c) fid n =
     (if 1 \<le> n \<and> n \<le> int (length (chain_entries c))
         \<and> fp_instance_id (chain_entries c ! nat (n - 1)) = fid
      then Some (chain_entries c ! nat (n - 1)) else None)"
proof -
  have d: "distinct (map fp_instance_id (chain_entries c))"
    using assms by (rule built_by_add_distinct)
  have "fid \<notin> fp_instance_id ` set (take (nat (n - 1)) (chain_entries c))"
    if "1 \<le> n" "n \<le> int (length (chain_entries c))"
       "fp_instance_id (chain_entries c ! nat (n - 1)) = fid"
  proof -
    have "nat (n - 1) < length (chain_entries c)" using that(1,2) by linarith
    from distinct_ids_take [OF d this] that(3) show ?thesis by simp
  qed
  then show ?thesis
    using chain_lookup_loop_position [of "chain_entries c" fid n 0]
    by (cases c) (auto simp: filter_prog_chain_lookup_def chain_entries_def)
qed

lemma built_by_add_example:
  "built_by_add (Some [\<lparr>fp_instance_id = 1, vm = Some 10, expected_result = 0\<rparr>,
                       \<lparr>fp_instance_id = 2, vm = Some 20, expected_result = 1\<rparr>])"
proof -
  have 1: "built_by_add (Some [\<lparr>fp_instance_id = 1, vm = Some 10, expected_result = 0\<rparr>])"
    by (rule added [OF unallocated, of 1 "Some 10" 0 True])
       (simp add: filter_prog_chain_add_Some chain_entries_def)
  show ?thesis
    by (rule added [OF 1, of 2 "Some 20" 1 True])
       (simp add: filter_prog_chain_add_Some chain_entries_def)
qed

text \<open>
  The chain built by adding id 1 and then id 2: the entry with id 2 is found under
  number 2, and id 1 is not found under number 2.
\<close>

theorem lookup_after_adds_is_positional_witness:
  "built_by_add (Some [\<lparr>fp_instance_id = 1, vm = Some 10, expected_result = 0\<rparr>,
                       \<lparr>fp_instance_id = 2, vm = Some 20, expected_result = 1\<rparr>])
   \<and> filter_prog_chain_lookup
        (Some (Some [\<lparr>fp_instance_id = 1, vm = Some 10, expected_result = 0\<rparr>,
                     \<lparr>fp_instance_id = 2, vm = Some 20, expected_result = 1\<rparr>])) 2 2
       = Some \<lparr>fp_instance_id = 2, vm = Some 20, expected_result = 1\<rparr>
   \<and> filter_prog_chain_lookup
        (Some (Some [\<lparr>fp_instance_id = 1, vm = Some 10, expected_result = 0\<rparr>,
                     \<lparr>fp_instance_id = 2, vm = Some 20, expected_result = 1\<rparr>])) 1 2
       = None"
  using built_by_add_example
    lookup_after_adds_is_positional [OF built_by_add_example, of 2 2]
    lookup_after_adds_is_positional [OF built_by_add_example, of 1 2]
  by (simp add: chain_entries_def)

text \<open>
  Claim C3 as stated fails: the chain built by adding id 1 and then id 2 holds the
  entry with id 2 at position 2, and the lookup of id 2 with number 2 returns it.
\<close>

theorem lookup_ordinal_above_one_counterexample:
  "built_by_add (Some [\<lparr>fp_instance_id = 1, vm = Some 10, expected_result = 0\<rparr>,
                       \<lparr>fp_instance_id = 2, vm = Some 20, expected_result = 1\<rparr>])
   \<and> (1::int) < 2
   \<and> filter_prog_chain_lookup
        (Some (Some [\<lparr>fp_instance_id = 1, vm = Some 10, expected_result = 0\<rparr>,
                     \<lparr>fp_instance_id = 2, vm = Some 20, expected_result = 1\<rparr>])) 2 2
       \<noteq> None"
  using built_by_add_example by (simp add: filter_prog_chain_lookup_def)

text \<open>
  The calls on an absent or empty chain that are defined: lookup on a \<open>NULL\<close> pointer,
  on an unallocated chain and on an empty one; free on \<open>NULL\<close> (no call of \<open>free\<close>) and
  on an empty chain (the list head is freed); add on an unallocated chain.
\<close>

lemma absent_chain_defined_cases:
  "filter_prog_chain_lookup None fid n = None
   \<and> filter_prog_chain_lookup (Some None) fid n = None
   \<and> filter_prog_chain_lookup (Some (Some [])) fid n = None
   \<and> filter_prog_chain_free None = []
   \<and> filter_prog_chain_free (Some []) = [Freed_list_head]
   \<and> filter_prog_chain_add (Some None) fid v r
       = Inr (True, Some [\<lparr>fp_instance_id = fid, vm = v, expected_result = r\<rparr>])"
  by (simp add: filter_prog_chain_lookup_def filter_prog_chain_free_def
      filter_prog_chain_add_Some chain_entries_def)

text \<open>
  Claim C4 at the input where it fails: add called with a \<open>NULL\<close> chain pointer reads
  through it in its first statement. Lookup tests the same pointer before use
  (\<open>absent_chain_defined_cases\<close> lists the calls that are defined).
\<close>

theorem add_null_chain_pointer_faults:
  "filter_prog_chain_add None 7 (Some 1) 0 = Inl Null_dereference"
  by (simp add: filter_prog_chain_add_def)

text \<open>
  Claim C5, as the code has it. When the chain already holds an entry with the id, add
  returns false and the chain is unchanged; otherwise it returns true and the new
  entry stands at the tail. A second add with the same id returns false and changes
  nothing. When the id was new, the lookup of that id afterwards returns the entry of
  the first add exactly under the number of its position, the former length plus one,
  and \<open>NULL\<close> under every other number.
\<close>

theorem add_rejects_duplicates:
  assumes "filter_prog_chain_add (Some c) fid v r = Inr (b1, c1)"
  shows "(fid \<in> fp_instance_id ` set (chain_entries c) \<longrightarrow> b1 = False \<and> c1 = c)
       \<and> (fid \<notin> fp_instance_id ` set (chain_entries c) \<longrightarrow>
            b1 = True \<and> c1 = Some (chain_entries c @
                 [\<lparr>fp_instance_id = fid, vm = v, expected_result = r\<rparr>]))
       \<and> filter_prog_chain_add (Some c1) fid v2 r2 = Inr (False, c1)
       \<and> (fid \<notin> fp_instance_id ` set (chain_entries c) \<longrightarrow>
            filter_prog_chain_lookup (Some c1) fid n =
              (if n = int (length (chain_entries c)) + 1
               then Some \<lparr>fp_instance_id = fid, vm = v, expected_result = r\<rparr>
               else None))"
proof (cases "fid \<in> fp_instance_id ` set (chain_entries c)")
  case True
  then obtain x where "x \<in> set (chain_entries c)" by auto
  then have "Some (chain_entries c) = c" by (rule chain_entries_Some_eq)
  with True assms show ?thesis
    by (auto simp: filter_prog_chain_add_Some)
next
  case False
  let ?new = "\<lparr>fp_instance_id = fid, vm = v, expected_result = r\<rparr>"
  from False assms have b1: "b1 = True" and c1: "c1 = Some (chain_entries c @ [?new])"
    by (simp_all add: filter_prog_chain_add_Some)
  have again: "filter_prog_chain_add (Some c1) fid v2 r2 = Inr (False, c1)"
    by (simp add: c1 filter_prog_chain_add_Some chain_entries_def)
  have look: "filter_prog_chain_lookup (Some c1) fid n =
      (if n = int (length (chain_entries c)) + 1 then Some ?new else None)"
  proof (cases "n = int (length (chain_entries c)) + 1")
    case True
    then have k: "nat (n - 1) = length (chain_entries c)" by simp
    show ?thesis
      using False True chain_lookup_loop_position [of "chain_entries c @ [?new]" fid n 0]
      by (simp add: c1 filter_prog_chain_lookup_def k)
  next
    case ne: False
    have "fp_instance_id ((chain_entries c @ [?new]) ! nat (n - 1)) \<noteq> fid"
      if "0 < n" "n \<le> int (length (chain_entries c))"
    proof -
      have lt: "nat (n - 1) < length (chain_entries c)" using that by linarith
      then have "chain_entries c ! nat (n - 1) \<in> set (chain_entries c)" by simp
      with False have "fp_instance_id (chain_entries c ! nat (n - 1)) \<noteq> fid" by blast
      with lt show ?thesis by (simp add: nth_append)
    qed
    with ne show ?thesis
      using chain_lookup_loop_position [of "chain_entries c @ [?new]" fid n 0]
      by (auto simp: c1 filter_prog_chain_lookup_def)
  qed
  from False b1 c1 again look show ?thesis by simp
qed

text \<open>
  Claim C5 as stated fails in its last part: after adding id 2 twice to a chain that
  holds id 1, the lookup of id 2 with number 1 returns \<open>NULL\<close>, not the entry of the
  first add.
\<close>

theorem add_twice_lookup_first_counterexample:
  "filter_prog_chain_add
     (Some (Some [\<lparr>fp_instance_id = 1, vm = Some 10, expected_result = 0\<rparr>])) 2 (Some 20) 1
     = Inr (True, Some [\<lparr>fp_instance_id = 1, vm = Some 10, expected_result = 0\<rparr>,
                        \<lparr>fp_instance_id = 2, vm = Some 20, expected_result = 1\<rparr>])
   \<and> filter_prog_chain_add
     (Some (Some [\<lparr>fp_instance_id = 1, vm = Some 10, expected_result = 0\<rparr>,
                  \<lparr>fp_instance_id = 2, vm = Some 20, expected_result = 1\<rparr>])) 2 (Some 30) 5
     = Inr (False, Some [\<lparr>fp_instance_id = 1, vm = Some 10, expected_result = 0\<rparr>,
                         \<lparr>fp_instance_id = 2, vm = Some 20, expected_result = 1\<rparr>])
   \<and> filter_prog_chain_lookup
     (Some (Some [\<lparr>fp_instance_id = 1, vm = Some 10, expected_result = 0\<rparr>,
                  \<lparr>fp_instance_id = 2, vm = Some 20, expected_result = 1\<rparr>])) 2 1
     = None"
  by (simp add: filter_prog_chain_add_Some chain_entries_def filter_prog_chain_lookup_def)

text \<open>
  Adding id 2 twice to a chain that holds id 1: the second add is rejected and the
  entry of the first add is found under number 2.
\<close>

theorem add_rejects_duplicates_witness:
  "filter_prog_chain_add
     (Some (Some [\<lparr>fp_instance_id = 1, vm = Some 10, expected_result = 0\<rparr>])) 2 (Some 20) 1
     = Inr (True, Some [\<lparr>fp_instance_id = 1, vm = Some 10, expected_result = 0\<rparr>,
                        \<lparr>fp_instance_id = 2, vm = Some 20, expected_result = 1\<rparr>])
   \<and> filter_prog_chain_add
     (Some (Some [\<lparr>fp_instance_id = 1, vm = Some 10, expected_result = 0\<rparr>,
                  \<lparr>fp_instance_id = 2, vm = Some 20, expected_result = 1\<rparr>])) 2 (Some 30) 5
     = Inr (False, Some [\<lparr>fp_instance_id = 1, vm = Some 10, expected_result = 0\<rparr>,
                         \<lparr>fp_instance_id = 2, vm = Some 20, expected_result = 1\<rparr>])
   \<and> filter_prog_chain_lookup
     (Some (Some [\<lparr>fp_instance_id = 1, vm = Some 10, expected_result = 0\<rparr>,
                  \<lparr>fp_instance_id = 2, vm = Some 20, expected_result = 1\<rparr>])) 2 2
     = Some \<lparr>fp_instance_id = 2, vm = Some 20, expected_result = 1\<rparr>"
proof -
  have h: "filter_prog_chain_add
     (Some (Some [\<lparr>fp_instance_id = 1, vm = Some 10, expected_result = 0\<rparr>])) 2 (Some 20) 1
     = Inr (True, Some [\<lparr>fp_instance_id = 1, vm = Some 10, expected_result = 0\<rparr>,
                        \<lparr>fp_instance_id = 2, vm = Some 20, expected_result = 1\<rparr>])"
    by (simp add: filter_prog_chain_add_Some chain_entries_def)
  have ids: "(2 :: ovs_be16) \<notin> fp_instance_id `
      set (chain_entries (Some [\<lparr>fp_instance_id = 1, vm = Some 10, expected_result = 0\<rparr>]))"
    by (simp add: chain_entries_def)
  note t = add_rejects_duplicates [OF h, of "Some 30" 5 2]
  from t ids have again: "filter_prog_chain_add
     (Some (Some [\<lparr>fp_instance_id = 1, vm = Some 10, expected_result = 0\<rparr>,
                  \<lparr>fp_instance_id = 2, vm = Some 20, expected_result = 1\<rparr>])) 2 (Some 30) 5
     = Inr (False, Some [\<lparr>fp_instance_id = 1, vm = Some 10, expected_result = 0\<rparr>,
                         \<lparr>fp_instance_id = 2, vm = Some 20, expected_result = 1\<rparr>])"
    by blast
  from t ids have "filter_prog_chain_lookup
     (Some (Some [\<lparr>fp_instance_id = 1, vm = Some 10, expected_result = 0\<rparr>,
                  \<lparr>fp_instance_id = 2, vm = Some 20, expected_result = 1\<rparr>])) 2 2
     = (if (2::int) = int (length (chain_entries
            (Some [\<lparr>fp_instance_id = 1, vm = Some 10, expected_result = 0\<rparr>]))) + 1
        then Some \<lparr>fp_instance_id = 2, vm = Some 20, expected_result = 1\<rparr> else None)"
    by blast
  then have look: "filter_prog_chain_lookup
     (Some (Some [\<lparr>fp_instance_id = 1, vm = Some 10, expected_result = 0\<rparr>,
                  \<lparr>fp_instance_id = 2, vm = Some 20, expected_result = 1\<rparr>])) 2 2
     = Some \<lparr>fp_instance_id = 2, vm = Some 20, expected_result = 1\<rparr>"
    by (simp add: chain_entries_def)
  from h again look show ?thesis by blast
qed

section \<open>The host function registry\<close>

text \<open>
  Claim C1, as the code has it. Whatever the VM held before, after
  \<open>register_functions\<close> the ids 1 to 7 are bound to map lookup, map update, map
  delete, map add, timestamp, hash and diagnostic print, in this order, each under the
  name of its C function.
\<close>

theorem register_functions_ids:
  "map_option (\<lambda>e. (fst e, func (snd e))) (register_functions vm0 1)
     = Some (''ubpf_map_lookup'', Ubpf_map_lookup)
   \<and> map_option (\<lambda>e. (fst e, func (snd e))) (register_functions vm0 2)
     = Some (''ubpf_map_update'', Ubpf_map_update)
   \<and> map_option (\<lambda>e. (fst e, func (snd e))) (register_functions vm0 3)
     = Some (''ubpf_map_delete'', Ubpf_map_delete)
   \<and> map_option (\<lambda>e. (fst e, func (snd e))) (register_functions vm0 4)
     = Some (''ubpf_map_add'', Ubpf_map_add)
   \<and> map_option (\<lambda>e. (fst e, func (snd e))) (register_functions vm0 5)
     = Some (''ubpf_time_get_ns'', Ubpf_time_get_ns)
   \<and> map_option (\<lambda>e. (fst e, func (snd e))) (register_functions vm0 6)
     = Some (''ubpf_hash'', Ubpf_hash)
   \<and> map_option (\<lambda>e. (fst e, func (snd e))) (register_functions vm0 7)
     = Some (''ubpf_printf'', Ubpf_printf)"
  by (simp add: register_functions_def ubpf_register_function_def Let_def
      ubpf_map_lookup_proto_def ubpf_map_update_proto_def ubpf_map_delete_proto_def
      ubpf_map_add_proto_def ubpf_time_get_ns_proto_def ubpf_hash_proto_def
      ubpf_printf_proto_def)

text \<open>
  Claim C1 as stated fails at ids 3 and 4: id 3 is bound to map delete, not to map
  add, and id 4 is not bound to map delete.
\<close>

theorem register_functions_id3_counterexample:
  "map_option (\<lambda>e. func (snd e)) (register_functions Map.empty 3) = Some Ubpf_map_delete
   \<and> map_option (\<lambda>e. func (snd e)) (register_functions Map.empty 3) \<noteq> Some Ubpf_map_add
   \<and> map_option (\<lambda>e. func (snd e)) (register_functions Map.empty 4) \<noteq> Some Ubpf_map_delete"
  by (simp add: register_functions_def ubpf_register_function_def Let_def
      ubpf_map_delete_proto_def ubpf_map_add_proto_def)

lemma register_functions_frame:
  "n \<notin> {1, 2, 3, 4, 5, 6, 7} \<Longrightarrow> register_functions vm0 n = vm0 n"
  by (simp add: register_functions_def ubpf_register_function_def Let_def)

section \<open>The map primitives\<close>

text \<open>
  Claim C6. Each wrapper tests, in this order, the map, the operation in the table and
  the pointer arguments, and the first test that fails decides the result: lookup
  returns \<open>NULL\<close> in all three cases; update returns -1, -2, -3 (key) and -4 (item);
  add and delete return -1, -2 and -3. When every test passes the result is the
  backend operation's result on the same arguments.
\<close>

theorem map_primitive_failure_codes:
  "ubpf_map_lookup None key = None
   \<and> (map_lookup_op (ops m) = None \<longrightarrow> ubpf_map_lookup (Some m) key = None)
   \<and> ubpf_map_lookup (Some m) None = None
   \<and> (map_lookup_op (ops m) = Some lf \<longrightarrow>
        ubpf_map_lookup (Some m) (Some k) = lf (map_data m) k)
   \<and> ubpf_map_update None key item = - 1
   \<and> (map_update_op (ops m) = None \<longrightarrow> ubpf_map_update (Some m) key item = - 2)
   \<and> (map_update_op (ops m) = Some uf \<longrightarrow>
        ubpf_map_update (Some m) None item = - 3
        \<and> ubpf_map_update (Some m) (Some k) None = - 4
        \<and> ubpf_map_update (Some m) (Some k) (Some it) = uf (map_data m) k it)
   \<and> ubpf_map_add None item = - 1
   \<and> (map_add_op (ops m) = None \<longrightarrow> ubpf_map_add (Some m) item = - 2)
   \<and> (map_add_op (ops m) = Some af \<longrightarrow>
        ubpf_map_add (Some m) None = - 3
        \<and> ubpf_map_add (Some m) (Some it) = af (map_data m) it)
   \<and> ubpf_map_delete None key = - 1
   \<and> (map_delete_op (ops m) = None \<longrightarrow> ubpf_map_delete (Some m) key = - 2)
   \<and> (map_delete_op (ops m) = Some df \<longrightarrow>
        ubpf_map_delete (Some m) None = - 3
        \<and> ubpf_map_delete (Some m) (Some k) = df (map_data m) k)"
  by (simp add: ubpf_map_lookup_def ubpf_map_update_def ubpf_map_add_def ubpf_map_delete_def
      split: option.split)

text \<open>
  A map with all four operations set and a map with none set.
\<close>

theorem map_primitive_failure_codes_witness:
  "ubpf_map_lookup
     (Some \<lparr>ops = \<lparr>map_lookup_op = Some (\<lambda>d k. Some (d + k)),
                   map_update_op = Some (\<lambda>d k it. int (d + k + it)),
                   map_add_op = Some (\<lambda>d it. int (d * it)),
                   map_delete_op = Some (\<lambda>d k. - 7)\<rparr>, map_data = (5::nat)\<rparr>) (Some 3) = Some 8
   \<and> ubpf_map_update
     (Some \<lparr>ops = \<lparr>map_lookup_op = Some (\<lambda>d k. Some (d + k)),
                   map_update_op = Some (\<lambda>d k it. int (d + k + it)),
                   map_add_op = Some (\<lambda>d it. int (d * it)),
                   map_delete_op = Some (\<lambda>d k. - 7)\<rparr>, map_data = (5::nat)\<rparr>) (Some 3) None = - 4
   \<and> ubpf_map_update
     (Some \<lparr>ops = \<lparr>map_lookup_op = Some (\<lambda>d k. Some (d + k)),
                   map_update_op = Some (\<lambda>d k it. int (d + k + it)),
                   map_add_op = Some (\<lambda>d it. int (d * it)),
                   map_delete_op = Some (\<lambda>d k. - 7)\<rparr>, map_data = (5::nat)\<rparr>) (Some 3) (Some 4) = 12
   \<and> ubpf_map_add
     (Some \<lparr>ops = \<lparr>map_lookup_op = Some (\<lambda>d k. Some (d + k)),
                   map_update_op = Some (\<lambda>d k it. int (d + k + it)),
                   map_add_op = Some (\<lambda>d it. int (d * it)),
                   map_delete_op = Some (\<lambda>d k. - 7)\<rparr>, map_data = (5::nat)\<rparr>) (Some 4) = 20
   \<and> ubpf_map_delete
     (Some \<lparr>ops = \<lparr>map_lookup_op = Some (\<lambda>d k. Some (d + k)),
                   map_update_op = Some (\<lambda>d k it. int (d + k + it)),
                   map_add_op = Some (\<lambda>d it. int (d * it)),
                   map_delete_op = Some (\<lambda>d k. - 7)\<rparr>, map_data = (5::nat)\<rparr>) (Some 3) = - 7
   \<and> ubpf_map_lookup
     (Some \<lparr>ops = \<lparr>map_lookup_op = None, map_update_op = None,
                   map_add_op = None, map_delete_op = None\<rparr>, map_data = (5::nat)\<rparr>) (Some 3) = None
   \<and> ubpf_map_update
     (Some \<lparr>ops = \<lparr>map_lookup_op = None, map_update_op = None,
                   map_add_op = None, map_delete_op = None\<rparr>, map_data = (5::nat)\<rparr>) None None = - 2
   \<and> ubpf_map_add
     (Some \<lparr>ops = \<lparr>map_lookup_op = None, map_update_op = None,
                   map_add_op = None, map_delete_op = None\<rparr>, map_data = (5::nat)\<rparr>) None = - 2
   \<and> ubpf_map_delete
     (Some \<lparr>ops = \<lparr>map_lookup_op = None, map_update_op = None,
                   map_add_op = None, map_delete_op = None\<rparr>, map_data = (5::nat)\<rparr>) None = - 2"
  using map_primitive_failure_codes
          [where m = "\<lparr>ops = \<lparr>map_lookup_op = Some (\<lambda>d k. Some (d + k)),
                   map_update_op = Some (\<lambda>d k it. int (d + k + it)),
                   map_add_op = Some (\<lambda>d it. int (d * it)),
                   map_delete_op = Some (\<lambda>d k. - 7)\<rparr>, map_data = (5::nat)\<rparr>"
             and lf = "\<lambda>d k. Some (d + k)" and uf = "\<lambda>d k it. int (d + k + it)"
             and af = "\<lambda>d it. int (d * it)" and df = "\<lambda>d k. - 7"
             and k = 3 and it = 4 and key = None and item = None]
        map_primitive_failure_codes
          [where m = "\<lparr>ops = \<lparr>map_lookup_op = None, map_update_op = None,
                   map_add_op = None, map_delete_op = None\<rparr>, map_data = (5::nat)\<rparr>"
             and key = "Some 3" and item = None]
        map_primitive_failure_codes
          [where m = "\<lparr>ops = \<lparr>map_lookup_op = None, map_update_op = None,
                   map_add_op = None, map_delete_op = None\<rparr>, map_data = (5::nat)\<rparr>"
             and key = None and item = None]
  by (simp add: ubpf_map_lookup_def ubpf_map_update_def ubpf_map_add_def ubpf_map_delete_def)

section \<open>The hash primitive\<close>

lemma ucast_low_bits:
  fixes n m :: "64 word"
  assumes "unat n mod 2 ^ 32 = unat m mod 2 ^ 32"
  shows "(ucast n :: 32 word) = ucast m"
proof -
  have "unat (ucast n :: 32 word) = unat (ucast m :: 32 word)"
    using assms by (simp add: unsigned_ucast_eq take_bit_eq_mod)
  then show ?thesis by (simp only: word_unat_eq_iff)
qed

text \<open>
  Claim C10. Only the low 32 bits of the length reach \<open>hashlittle\<close>: two lengths that
  are congruent modulo \<open>2^32\<close> give the same hash of the same memory at the same
  pointer.
\<close>

theorem ubpf_hash_length_truncated:
  assumes "unat n mod 2 ^ 32 = unat m mod 2 ^ 32"
  shows "ubpf_hash h mem p n = ubpf_hash h mem p m"
  using ucast_low_bits [OF assms] by (simp add: ubpf_hash_def)

text \<open>
  The lengths 5 and \<open>2^32 + 5\<close>, with a mixing function that depends on the bytes
  it gets, on the length and on the seed.
\<close>

theorem ubpf_hash_length_truncated_witness:
  "unat (5 :: 64 word) mod 2 ^ 32 = unat (4294967301 :: 64 word) mod 2 ^ 32
   \<and> ubpf_hash (\<lambda>bs len seed. of_nat (length bs) + len + seed) (\<lambda>a. 0) 0 5
     = ubpf_hash (\<lambda>bs len seed. of_nat (length bs) + len + seed) (\<lambda>a. 0) 0 4294967301
   \<and> ubpf_hash (\<lambda>bs len seed. of_nat (length bs) + len + seed) (\<lambda>a. 0) 0 4294967301 = 10"
proof -
  have h: "unat (5 :: 64 word) mod 2 ^ 32 = unat (4294967301 :: 64 word) mod 2 ^ 32"
    by simp
  have v: "ubpf_hash (\<lambda>bs len seed. of_nat (length bs) + len + seed) (\<lambda>a. 0) 0 5 = 10"
    by (simp add: ubpf_hash_def read_bytes_def)
  from h v ubpf_hash_length_truncated
    [OF h, of "\<lambda>bs len seed. of_nat (length bs) + len + seed" "\<lambda>a. 0" 0]
  show ?thesis by simp
qed

lemma read_bytes_cong:
  assumes "\<forall>k<n. mem1 (p1 + of_nat k) = mem2 (p2 + of_nat k)"
  shows "read_bytes mem1 p1 n = read_bytes mem2 p2 n"
  using assms by (simp add: read_bytes_def)

lemma unat_ucast_le: "unat (ucast (sz :: 64 word) :: 32 word) \<le> unat sz"
  by (simp add: unsigned_ucast_eq take_bit_eq_mod)

text \<open>
  Claim C7. Two invocations with the same length return the same hash whenever the
  bytes in the range the length spans are the same, byte for byte: the two pointers
  may differ, and so may the two memories outside the ranges. Neither the address nor
  anything else but the bytes and the length enters the computation; the seed is the
  constant 0.
\<close>

theorem ubpf_hash_deterministic:
  assumes "\<forall>k < unat sz. mem1 (item1 + of_nat k) = mem2 (item2 + of_nat k)"
  shows "ubpf_hash h mem1 item1 sz = ubpf_hash h mem2 item2 sz"
proof -
  have "\<forall>k < unat (ucast sz :: 32 word). mem1 (item1 + of_nat k) = mem2 (item2 + of_nat k)"
    using assms unat_ucast_le [of sz] by auto
  then have "read_bytes mem1 item1 (unat (ucast sz :: 32 word))
           = read_bytes mem2 item2 (unat (ucast sz :: 32 word))"
    by (rule read_bytes_cong)
  then show ?thesis by (simp add: ubpf_hash_def)
qed

text \<open>
  The bytes 1, 2 at address 16 of one memory and at address 100 of another, which
  differ everywhere else.
\<close>

theorem ubpf_hash_deterministic_witness:
  "ubpf_hash (\<lambda>bs len seed. sum_list (map ucast bs) + len + seed)
       (\<lambda>a. if a = 16 then 1 else if a = 17 then 2 else 0) 16 2
   = ubpf_hash (\<lambda>bs len seed. sum_list (map ucast bs) + len + seed)
       (\<lambda>a. if a = 100 then 1 else if a = 101 then 2 else 7) 100 2
   \<and> ubpf_hash (\<lambda>bs len seed. sum_list (map ucast bs) + len + seed)
       (\<lambda>a. if a = 16 then 1 else if a = 17 then 2 else 0) 16 2 = 5"
proof -
  have h: "\<forall>k < unat (2 :: 64 word).
      (\<lambda>a. if a = 16 then 1 else if a = 17 then 2 else (0 :: 8 word)) ((16 :: 64 word) + of_nat k)
      = (\<lambda>a. if a = 100 then 1 else if a = 101 then 2 else 7) ((100 :: 64 word) + of_nat k)"
  proof (intro allI impI)
    fix k :: nat
    assume "k < unat (2 :: 64 word)"
    then have "k = 0 \<or> k = 1" by auto
    then show "(\<lambda>a. if a = 16 then 1 else if a = 17 then 2 else (0 :: 8 word))
                 ((16 :: 64 word) + of_nat k)
             = (\<lambda>a. if a = 100 then 1 else if a = 101 then 2 else 7) ((100 :: 64 word) + of_nat k)"
      by auto
  qed
  have v: "ubpf_hash (\<lambda>bs len seed. sum_list (map ucast bs) + len + seed)
       (\<lambda>a. if a = 16 then 1 else if a = 17 then 2 else 0) 16 2 = 5"
    by (simp add: ubpf_hash_def read_bytes_def upt_rec)
  from v ubpf_hash_deterministic
    [OF h, of "\<lambda>bs len seed. sum_list (map ucast bs) + len + seed"]
  show ?thesis by simp
qed

section \<open>The timestamp primitive\<close>

lemma bit_length_bounds:
  "2 ^ k \<le> n \<Longrightarrow> n < 2 ^ Suc k \<Longrightarrow> bit_length n = Suc k"
proof (induction k arbitrary: n)
  case 0
  then have "n = 1" by simp
  then show ?case by (simp add: bit_length.simps)
next
  case (Suc k)
  from Suc.prems have "2 ^ k \<le> n div 2" "n div 2 < 2 ^ Suc k" by simp_all
  then have "bit_length (n div 2) = Suc k" by (rule Suc.IH)
  moreover from Suc.prems have "n \<noteq> 0" by auto
  ultimately show ?case by (subst bit_length.simps) simp
qed

lemma bit_length_product: "bit_length 1700000000000000000 = 61"
  using bit_length_bounds [of 60 1700000000000000000] by simp

lemma bit_length_total: "bit_length 1700000000000000001 = 61"
  using bit_length_bounds [of 60 1700000000000000001] by simp

lemma round_product: "round_to_double 1700000000000000000 = 1700000000000000000"
  by (simp add: round_to_double_def bit_length_product Let_def)

lemma round_total: "round_to_double 1700000000000000001 = 1700000000000000000"
  by (simp add: round_to_double_def bit_length_total Let_def)

lemma round_small: "x < 2 ^ 53 \<Longrightarrow> round_to_double x = x"
  by (simp add: round_to_double_def)

lemma double_of_int_small:
  assumes "0 \<le> x" "x < 2 ^ 53"
  shows "double_of_int x = x"
proof -
  from assms have "nat \<bar>x\<bar> < 2 ^ 53" by (simp add: nat_less_iff)
  then have "round_to_double (nat \<bar>x\<bar>) = nat \<bar>x\<bar>" by (rule round_small)
  with assms(1) show ?thesis by (simp add: double_of_int_def sgn_if)
qed

text \<open>
  While the number of nanoseconds stays below \<open>2^53\<close> (about 104 days after the
  epoch) no rounding occurs and the result is exact.
\<close>

lemma ubpf_time_get_ns_exact_below_2_53:
  assumes "0 \<le> s" "0 \<le> ns" "s * 1000000000 + ns < 2 ^ 53"
  shows "ubpf_time_get_ns \<lparr>tv_sec = s, tv_nsec = ns\<rparr> = Inr (word_of_int (s * 1000000000 + ns))"
proof -
  from assms have p: "s * 1000000000 < 2 ^ 53" and n: "ns < 2 ^ 53" and s: "s < 2 ^ 53"
    by simp_all
  have p0: "0 \<le> s * 1000000000" using assms(1) by simp
  have t0: "0 \<le> ns + s * 1000000000" using assms(1,2) by simp
  have t: "ns + s * 1000000000 < 2 ^ 53" using assms(3) by simp
  have t64: "ns + s * 1000000000 < 2 ^ 64" using t by simp
  show ?thesis
    using t0 t64
    by (simp add: ubpf_time_get_ns_def Let_def double_of_int_small [OF assms(1) s]
        double_of_int_small [OF assms(2) n] double_of_int_small [OF p0 p]
        double_of_int_small [OF t0 t] add.commute)
qed

text \<open>
  Claim C8 at an input where it fails. For the clock reading of 1700000000 seconds and
  1 nanosecond the product \<open>1.7e18\<close> is a \<open>double\<close>, but the sum with 1 is not: it
  lies between two neighbouring \<open>double\<close> values 256 apart and is rounded back to
  \<open>1.7e18\<close>. The function returns 1700000000000000000, and the exact number of
  nanoseconds is 1700000000000000001.
\<close>

theorem ubpf_time_get_ns_rounds:
  "ubpf_time_get_ns \<lparr>tv_sec = 1700000000, tv_nsec = 1\<rparr> = Inr 1700000000000000000
   \<and> (1700000000000000000 :: 64 word) \<noteq> word_of_int (1700000000 * 1000000000 + 1)"
  by (simp add: ubpf_time_get_ns_def double_of_int_def round_small round_product round_total Let_def)

section \<open>Loading and compiling\<close>

lemma foldr_max_upper: "x \<in> set xs \<Longrightarrow> x \<le> foldr max xs (0::nat)"
  by (induction xs) (auto simp: max_def)

lemma malloc_addr_fresh: "Suc (foldr max (map fst h) 0) \<notin> fst ` set h"
proof
  assume "Suc (foldr max (map fst h) 0) \<in> fst ` set h"
  then have "Suc (foldr max (map fst h) 0) \<in> set (map fst h)" by simp
  then have "Suc (foldr max (map fst h) 0) \<le> foldr max (map fst h) 0"
    by (rule foldr_max_upper)
  then show False by simp
qed

lemma filter_fresh: "a \<notin> fst ` set h \<Longrightarrow> filter (\<lambda>b. fst b \<noteq> a) h = h"
  by (induction h) auto

lemma warn_and_free_stored:
  assumes "store_errmsg (Some s) e st = (e', st')"
  shows "warn_and_free prefix e' st'
         = Inr (st\<lparr>warn_log := warn_log st @ [prefix @ s @ [CHR 0x0A]]\<rparr>)"
  using assms malloc_addr_fresh [of "heap st"]
  by (auto simp: store_errmsg_def malloc_str_def warn_and_free_def free_buf_def
      vlog_warn_rl_def buf_text_def Let_def filter_fresh)

text \<open>
  Claim C9. The library stores a diagnostic exactly when the step fails (a negative
  status of the loader, a \<open>NULL\<close> entry point of the compiler). Then
  \<open>load_filter_prog\<close> never faults; on a failure of either step it hands the
  library's text to the warning channel, frees the buffer and returns false; on
  success it returns true. In all three cases the heap at return is the heap at entry:
  no diagnostic buffer stays allocated.
\<close>

theorem load_filter_prog_releases_diagnostic:
  assumes "ubpf_load_elf v code len = (rv, m1, v1)"
      and "(rv < 0) = (m1 \<noteq> None)"
      and "ubpf_compile v1 = (fn, m2, v2)"
      and "0 \<le> rv \<Longrightarrow> (fn = None) = (m2 \<noteq> None)"
  shows "load_filter_prog ubpf_load_elf ubpf_compile v len code st =
     (if rv < 0
      then Inr (False, v1,
             st\<lparr>warn_log := warn_log st @ [''Failed to load code: '' @ the m1 @ [CHR 0x0A]]\<rparr>)
      else if fn = None
      then Inr (False, v2,
             st\<lparr>warn_log := warn_log st @ [''Failed to compile: '' @ the m2 @ [CHR 0x0A]]\<rparr>)
      else Inr (True, v2, st))"
proof (cases "rv < 0")
  case True
  with assms(2) obtain s where s: "m1 = Some s" by auto
  obtain e' st' where st: "store_errmsg (Some s) None st = (e', st')"
    by (cases "store_errmsg (Some s) None st")
  from warn_and_free_stored [OF st, of "''Failed to load code: ''"] True show ?thesis
    by (simp add: load_filter_prog_def assms(1) s st)
next
  case False
  with assms(2) have m1: "m1 = None" by auto
  from False assms(4) have c: "(fn = None) = (m2 \<noteq> None)" by simp
  have st1: "store_errmsg None None st = (None, st)"
    by (simp add: store_errmsg_def)
  show ?thesis
  proof (cases "fn = None")
    case True
    with c obtain s where s: "m2 = Some s" by auto
    obtain e' st' where st: "store_errmsg (Some s) None st = (e', st')"
      by (cases "store_errmsg (Some s) None st")
    from warn_and_free_stored [OF st, of "''Failed to compile: ''"] False True show ?thesis
      by (simp add: load_filter_prog_def assms(1,3) m1 s st st1)
  next
    case nz: False
    with c have m2: "m2 = None" by auto
    from nz obtain entry where entry: "fn = Some entry" by auto
    from False show ?thesis
      by (simp add: load_filter_prog_def assms(1,3) m1 m2 entry st1)
  qed
qed

text \<open>
  A loader that rejects the image \<open>''bad''\<close>, and a compiler that rejects the program
  of VM state 1: a failed load, a failed compilation and a success, each started with
  one unrelated live buffer.
\<close>

theorem load_filter_prog_releases_diagnostic_witness:
  "load_filter_prog
     (\<lambda>v code len. if code = ''bad'' then (- 1, Some ''no ELF header'', v) else (0, None, Suc v))
     (\<lambda>v. if v = 1 then (None, Some ''bad call'', v) else (Some 64, None, v))
     (0 :: nat) 3 ''bad'' \<lparr>heap = [(4, ''kept'')], warn_log = []\<rparr>
   = Inr (False, 0, \<lparr>heap = [(4, ''kept'')],
                     warn_log = [''Failed to load code: no ELF header'' @ [CHR 0x0A]]\<rparr>)
   \<and> load_filter_prog
     (\<lambda>v code len. if code = ''bad'' then (- 1, Some ''no ELF header'', v) else (0, None, Suc v))
     (\<lambda>v. if v = 1 then (None, Some ''bad call'', v) else (Some 64, None, v))
     (0 :: nat) 3 ''elf'' \<lparr>heap = [(4, ''kept'')], warn_log = []\<rparr>
   = Inr (False, 1, \<lparr>heap = [(4, ''kept'')],
                     warn_log = [''Failed to compile: bad call'' @ [CHR 0x0A]]\<rparr>)
   \<and> load_filter_prog
     (\<lambda>v code len. if code = ''bad'' then (- 1, Some ''no ELF header'', v) else (0, None, Suc v))
     (\<lambda>v. if v = 1 then (None, Some ''bad call'', v) else (Some 64, None, v))
     (1 :: nat) 3 ''elf'' \<lparr>heap = [(4, ''kept'')], warn_log = []\<rparr>
   = Inr (True, 2, \<lparr>heap = [(4, ''kept'')], warn_log = []\<rparr>)"
  using load_filter_prog_releases_diagnostic
     [of "\<lambda>v code len. if code = ''bad'' then (- 1, Some ''no ELF header'', v) else (0, None, Suc v)"
         "0 :: nat" "''bad''" 3 "- 1" "Some ''no ELF header''" 0
         "\<lambda>v. if v = 1 then (None, Some ''bad call'', v) else (Some 64, None, v)"
         "Some 64" None 0 "\<lparr>heap = [(4, ''kept'')], warn_log = []\<rparr>"]
    load_filter_prog_releases_diagnostic
     [of "\<lambda>v code len. if code = ''bad'' then (- 1, Some ''no ELF header'', v) else (0, None, Suc v)"
         "0 :: nat" "''elf''" 3 0 None 1
         "\<lambda>v. if v = 1 then (None, Some ''bad call'', v) else (Some 64, None, v)"
         None "Some ''bad call''" 1 "\<lparr>heap = [(4, ''kept'')], warn_log = []\<rparr>"]
    load_filter_prog_releases_diagnostic
     [of "\<lambda>v code len. if code = ''bad'' then (- 1, Some ''no ELF header'', v) else (0, None, Suc v)"
         "1 :: nat" "''elf''" 3 0 None 2
         "\<lambda>v. if v = 1 then (None, Some ''bad call'', v) else (Some 64, None, v)"
         "Some 64" None 2 "\<lparr>heap = [(4, ''kept'')], warn_log = []\<rparr>"]
  by simp

end
